theory Spec2Isabelle
  imports Complex_Main "HOL-Library.Multiset"
begin

section \<open>Python values shared by the modules\<close>

text \<open>
  Exceptions are values. Those with an argument carry the message that \<open>str(e)\<close>
  returns. \<open>RemoteCallError\<close> stands for any failure of the remote call that is an
  instance of \<open>Exception\<close>. \<open>CancelledError\<close> (of asyncio), \<open>KeyboardInterrupt\<close> and
  \<open>SystemExit\<close> derive from \<open>BaseException\<close> only, so a clause \<open>except Exception\<close> does
  not catch them.
\<close>

datatype py_exception =
    ValueError string
  | IndexError string
  | OverflowError string
  | ZeroDivisionError string
  | RemoteCallError string
  | CancelledError
  | KeyboardInterrupt
  | SystemExit

fun str_exc :: "py_exception \<Rightarrow> string" where
  "str_exc (ValueError m) = m"
| "str_exc (IndexError m) = m"
| "str_exc (OverflowError m) = m"
| "str_exc (ZeroDivisionError m) = m"
| "str_exc (RemoteCallError m) = m"
| "str_exc CancelledError = []"
| "str_exc KeyboardInterrupt = []"
| "str_exc SystemExit = []"

fun is_Exception :: "py_exception \<Rightarrow> bool" where
  "is_Exception CancelledError = False"
| "is_Exception KeyboardInterrupt = False"
| "is_Exception SystemExit = False"
| "is_Exception e = True"

text \<open>The process environment as \<open>os.getenv\<close> reads it: a missing variable is \<open>None\<close>.\<close>

type_synonym environ = "string \<rightharpoonup> string"

text \<open>The line feed of the triple-quoted literals.\<close>

definition nl :: string where
  "nl = [CHR 0x0A]"

section \<open>day-2/src/setup.py\<close>

text \<open>
  The objects of the external SDK are plain containers of the keyword arguments they are
  built from: \<open>AsyncOpenAI(api_key, base_url)\<close>,
  \<open>OpenAIChatCompletionsModel(model, openai_client)\<close>, \<open>ModelSettings(temperature,
  max_tokens)\<close> and \<open>RunConfig(model, model_provider, tracing_disabled, model_settings)\<close>.
  The temperature is passed through and never computed with, so it is a real number here.
\<close>

record async_openai =
  api_key :: string
  base_url :: string

record chat_completions_model =
  model_id :: string
  openai_client :: async_openai

record model_settings_t =
  temperature :: real
  max_tokens :: int

record run_config =
  rc_model :: chat_completions_model
  model_provider :: async_openai
  tracing_disabled :: bool
  model_settings :: model_settings_t

definition create_gemini_config ::
  "environ \<Rightarrow> real \<Rightarrow> int \<Rightarrow> py_exception + (run_config \<times> async_openai \<times> chat_completions_model)"
where
  "create_gemini_config env temp max_tok =
     (case env ''GEMINI_API_KEY'' of
        None \<Rightarrow> Inl (ValueError ''GEMINI_API_KEY not found in environment variables'')
      | Some gemini_api_key \<Rightarrow>
          if gemini_api_key = []
          then Inl (ValueError ''GEMINI_API_KEY not found in environment variables'')
          else
            let external_client =
                  \<lparr>api_key = gemini_api_key,
                   base_url = ''https://generativelanguage.googleapis.com/v1beta/openai/''\<rparr>;
                model = \<lparr>model_id = ''gemini-2.0-flash'', openai_client = external_client\<rparr>;
                settings = \<lparr>temperature = temp, max_tokens = max_tok\<rparr>;
                config = \<lparr>rc_model = model, model_provider = external_client,
                          tracing_disabled = True, model_settings = settings\<rparr>
            in Inr (config, external_client, model))"

text \<open>The defaults of the signature: \<open>temperature=0.7, max_tokens=1000\<close>.\<close>

definition create_gemini_config_default ::
  "environ \<Rightarrow> py_exception + (run_config \<times> async_openai \<times> chat_completions_model)"
where
  "create_gemini_config_default env = create_gemini_config env (7 / 10) 1000"

section \<open>day-2/src/dynamic_instructions.py\<close>

subsection \<open>\<open>str.title\<close> on ASCII text\<close>

text \<open>
  \<open>str.title\<close> upper-cases a cased character that follows an uncased one (or starts the
  string) and lower-cases every other cased character. It is applied to \<open>task_type\<close>
  only after the membership test of line 57, so only to the five ASCII keys.
\<close>

definition is_lower :: "char \<Rightarrow> bool" where
  "is_lower c = (97 \<le> (of_char c :: nat) \<and> (of_char c :: nat) \<le> 122)"

definition is_upper :: "char \<Rightarrow> bool" where
  "is_upper c = (65 \<le> (of_char c :: nat) \<and> (of_char c :: nat) \<le> 90)"

definition to_upper :: "char \<Rightarrow> char" where
  "to_upper c = (if is_lower c then char_of ((of_char c :: nat) - 32) else c)"

definition to_lower :: "char \<Rightarrow> char" where
  "to_lower c = (if is_upper c then char_of ((of_char c :: nat) + 32) else c)"

fun title_from :: "bool \<Rightarrow> string \<Rightarrow> string" where
  "title_from previous_is_cased [] = []"
| "title_from previous_is_cased (c # cs) =
     (if is_lower c
      then (if previous_is_cased then c else to_upper c) # title_from True cs
      else if is_upper c
      then (if previous_is_cased then to_lower c else c) # title_from True cs
      else c # title_from False cs)"

definition title :: "string \<Rightarrow> string" where
  "title s = title_from False s"

subsection \<open>The class \<open>DynamicAgent\<close>\<close>

record agent =
  name :: string
  instructions :: string
  model :: string

record run_result =
  final_output :: string

record dynamic_agent =
  base_name :: string
  config :: run_config

text \<open>
  \<open>Runner.run\<close> is the remote model call. It is a parameter of the model: given the
  agent, the user input and the run configuration it either raises or returns a result.
\<close>

type_synonym runner = "agent \<Rightarrow> string \<Rightarrow> run_config \<Rightarrow> py_exception + run_result"

text \<open>\<open>__init__\<close> (lines 16 to 18) keeps the name and the default configuration.\<close>

definition DynamicAgent :: "environ \<Rightarrow> string \<Rightarrow> py_exception + dynamic_agent" where
  "DynamicAgent env nm =
     (case create_gemini_config_default env of
        Inl e \<Rightarrow> Inl e
      | Inr (cfg, _, _) \<Rightarrow> Inr \<lparr>base_name = nm, config = cfg\<rparr>)"

text \<open>
  The dictionary literal of lines 30 to 55, in the order it is written. Each value is an
  f-string: three fixed lines, each continuation line indented by twelve blanks, and the
  context substituted at the end.
\<close>

definition indent :: string where
  "indent = ''            ''"

definition instruction_templates :: "string \<Rightarrow> (string \<times> string) list" where
  "instruction_templates additional_context =
     [(''email'',
         ''You are a professional email assistant.'' @ nl @ indent @
         ''Write clear, polite, and business-appropriate emails.'' @ nl @ indent @
         ''Keep responses concise and actionable.'' @ nl @ indent @
         additional_context),
      (''code'',
         ''You are a senior software engineer.'' @ nl @ indent @
         ''Provide clean, well-commented code with explanations.'' @ nl @ indent @
         ''Focus on best practices and readability.'' @ nl @ indent @
         additional_context),
      (''creative'',
         ''You are a creative writing assistant.'' @ nl @ indent @
         ''Be imaginative, engaging, and descriptive.'' @ nl @ indent @
         ''Use vivid language and compelling narratives.'' @ nl @ indent @
         additional_context),
      (''tutor'',
         ''You are a patient and encouraging tutor.'' @ nl @ indent @
         ''Explain concepts step-by-step with examples.'' @ nl @ indent @
         ''Ask clarifying questions to ensure understanding.'' @ nl @ indent @
         additional_context),
      (''analyst'',
         ''You are a data analyst.'' @ nl @ indent @
         ''Provide structured, logical analysis.'' @ nl @ indent @
         ''Use facts and evidence to support conclusions.'' @ nl @ indent @
         additional_context)]"

definition create_agent_for_task ::
  "dynamic_agent \<Rightarrow> string \<Rightarrow> string \<Rightarrow> py_exception + agent"
where
  "create_agent_for_task self task_type additional_context =
     (case map_of (instruction_templates additional_context) task_type of
        None \<Rightarrow> Inl (ValueError (''Unknown task type: '' @ task_type))
      | Some template \<Rightarrow>
          Inr \<lparr>name = base_name self @ '' - '' @ title task_type,
               instructions = template,
               model = ''gemini-2.0-flash''\<rparr>)"

text \<open>
  The same method with the state a Python method can reach made explicit: the attributes
  of the object \<open>self\<close>, the process environment and the console. The body reads
  \<open>self.base_name\<close> and has no assignment to an attribute or a global and no output, so
  every branch hands the state on as it received it.
\<close>

record program_state =
  dispatcher :: dynamic_agent
  environment :: environ
  console :: "string list"

definition create_agent_for_task_st ::
  "string \<Rightarrow> string \<Rightarrow> program_state \<Rightarrow> (py_exception + agent) \<times> program_state"
where
  "create_agent_for_task_st task_type additional_context s =
     (case map_of (instruction_templates additional_context) task_type of
        None \<Rightarrow> (Inl (ValueError (''Unknown task type: '' @ task_type)), s)
      | Some template \<Rightarrow>
          (Inr \<lparr>name = base_name (dispatcher s) @ '' - '' @ title task_type,
                instructions = template,
                model = ''gemini-2.0-flash''\<rparr>,
           s))"

text \<open>
  \<open>handle_request\<close> (lines 66 to 75). The lines printed so far are passed in and
  returned. The clause of lines 74 and 75 is \<open>except Exception\<close>: an instance of
  \<open>Exception\<close> is printed and the method ends without \<open>return\<close>, which yields \<open>None\<close>;
  any other exception leaves the method (\<open>Inl\<close>) and nothing is printed.
\<close>

definition except_Exception ::
  "py_exception \<Rightarrow> string list \<Rightarrow> (py_exception + string option) \<times> string list"
where
  "except_Exception e printed =
     (if is_Exception e
      then (Inr None, printed @ [''you type wrong task_type '' @ str_exc e])
      else (Inl e, printed))"

definition handle_request ::
  "runner \<Rightarrow> dynamic_agent \<Rightarrow> string \<Rightarrow> string \<Rightarrow> string \<Rightarrow> string list \<Rightarrow>
     (py_exception + string option) \<times> string list"
where
  "handle_request run self task_type user_input context printed =
     (case create_agent_for_task self task_type context of
        Inl e \<Rightarrow> except_Exception e printed
      | Inr ag \<Rightarrow>
          (case run ag user_input (config self) of
             Inl e \<Rightarrow> except_Exception e printed
           | Inr result \<Rightarrow> (Inr (Some (final_output result)), printed)))"

section \<open>python/projects/rock_paper_scissor/main.py\<close>

text \<open>
  The subscript \<open>xs[i]\<close> of a Python list: positions \<open>0\<close> to \<open>len(xs) - 1\<close> read from the
  front, positions \<open>-1\<close> down to \<open>-len(xs)\<close> read from the back, and every other
  position raises \<open>IndexError\<close>.
\<close>

definition getitem :: "'a list \<Rightarrow> int \<Rightarrow> py_exception + 'a" where
  "getitem xs i =
     (if 0 \<le> i \<and> i < int (length xs)
      then Inr (xs ! nat i)
      else if i < 0 \<and> - int (length xs) \<le> i
      then Inr (xs ! nat (int (length xs) + i))
      else Inl (IndexError ''list index out of range''))"

definition apostrophe :: string where
  "apostrophe = [CHR 0x27]"

definition rock :: string where
  "rock = nl @
     ''    _______'' @ nl @
     ''---'' @ apostrophe @ ''   ____)'' @ nl @
     ''      (_____)'' @ nl @
     ''      (_____)'' @ nl @
     ''      (____)'' @ nl @
     ''---.__(___)'' @ nl"

definition paper :: string where
  "paper = nl @
     ''    _______'' @ nl @
     ''---'' @ apostrophe @ ''   ____)____'' @ nl @
     ''          ______)'' @ nl @
     ''          _______)'' @ nl @
     ''         _______)'' @ nl @
     ''---.__________)'' @ nl"

definition scissors :: string where
  "scissors = nl @
     ''    _______'' @ nl @
     ''---'' @ apostrophe @ ''   ____)____'' @ nl @
     ''          ______)'' @ nl @
     ''       __________)'' @ nl @
     ''      (____)'' @ nl @
     ''---.__(___)'' @ nl"

definition game_list :: "string list" where
  "game_list = [rock, paper, scissors]"

text \<open>
  Lines 31 and 32: the guard and the guarded display of the user's choice. The result is
  the list of lines printed, or the exception that ends the program.
\<close>

definition choice_guard :: "int \<Rightarrow> bool" where
  "choice_guard your_choice = (your_choice \<le> 3 \<and> your_choice > 0)"

definition show_choice :: "int \<Rightarrow> py_exception + string list" where
  "show_choice your_choice =
     (if choice_guard your_choice
      then (case getitem game_list your_choice of
              Inl e \<Rightarrow> Inl e
            | Inr picture \<Rightarrow> Inr [picture])
      else Inr [])"

text \<open>Lines 36 to 47: the chain of outcome branches, in the order of the source.\<close>

definition outcome :: "int \<Rightarrow> int \<Rightarrow> string list" where
  "outcome your_choice ai =
     (if your_choice \<ge> 3 \<or> your_choice < 0 then [''you typed an invalid number'']
      else if ai = your_choice then [''It'' @ apostrophe @ ''s a draw!'']
      else if ai > your_choice then [''You win'']
      else if ai < your_choice then [''You lose'']
      else if ai = 0 \<and> your_choice = 2 then [''You lose'']
      else if ai = 2 \<and> your_choice = 0 then [''You win'']
      else [])"

text \<open>
  The program from line 31 on, for the number the user typed and the number
  \<open>random.randint(0,2)\<close> returned.
\<close>

definition rock_paper_scissor :: "int \<Rightarrow> int \<Rightarrow> py_exception + string list" where
  "rock_paper_scissor your_choice ai =
     (case show_choice your_choice of
        Inl e \<Rightarrow> Inl e
      | Inr shown \<Rightarrow>
          (case getitem game_list ai of
             Inl e \<Rightarrow> Inl e
           | Inr picture \<Rightarrow>
               Inr (shown @ [''computer choose:'', picture] @ outcome your_choice ai)))"

section \<open>python/projects/password generator/password_generator.py\<close>











section \<open>openai-agents-sdk/day-1/calculator.py\<close>











section \<open>Objects of the demonstrations\<close>

text \<open>
  \<open>demo_dynamic_agents\<close> builds \<open>DynamicAgent("Versatile Assistant")\<close> at line 85 of
  dynamic_instructions.py. This is that object when the environment holds the key
  \<open>secret\<close>.
\<close>

definition dynamic_system :: dynamic_agent where
  "dynamic_system =
     \<lparr>base_name = ''Versatile Assistant'',
      config =
        \<lparr>rc_model =
           \<lparr>model_id = ''gemini-2.0-flash'',
            openai_client =
              \<lparr>api_key = ''secret'',
               base_url = ''https://generativelanguage.googleapis.com/v1beta/openai/''\<rparr>\<rparr>,
         model_provider =
           \<lparr>api_key = ''secret'',
            base_url = ''https://generativelanguage.googleapis.com/v1beta/openai/''\<rparr>,
         tracing_disabled = True,
         model_settings = \<lparr>temperature = 7 / 10, max_tokens = 1000\<rparr>\<rparr>\<rparr>"

section \<open>Configuration: credential and parameters\<close>

lemma DynamicAgent_dynamic_system:
  "DynamicAgent [''GEMINI_API_KEY'' \<mapsto> ''secret''] ''Versatile Assistant'' = Inr dynamic_system"
  by (simp add: DynamicAgent_def create_gemini_config_default_def create_gemini_config_def
      dynamic_system_def Let_def)

text \<open>
  With a key that is set and not empty the construction succeeds for every temperature
  and every token limit, and the run configuration carries both values unchanged: the
  function compares neither of them with anything.
\<close>

lemma create_gemini_config_passes_parameters:
  assumes "env ''GEMINI_API_KEY'' = Some key" and "key \<noteq> []"
  shows "\<exists>cfg client mdl.
           create_gemini_config env temp max_tok = Inr (cfg, client, mdl) \<and>
           temperature (model_settings cfg) = temp \<and>
           max_tokens (model_settings cfg) = max_tok"
  using assms by (simp add: create_gemini_config_def Let_def)

text \<open>
  C1 asks that the construction fail when the temperature is outside \<open>[0,1]\<close> or the
  token limit is not positive, and debug.py (lines 12 to 26) expects the same of
  \<open>create_gemini_config\<close>: it reports \<open>This should have failed but did not, check your
  validation\<close> when the call returns. The function does return: with the key \<open>secret\<close>,
  a temperature of 1.5 and a token limit of \<open>-5\<close> each give a configuration that holds
  the value.
\<close>

theorem create_gemini_config_accepts_out_of_range:
  "map_sum id
     (\<lambda>(cfg, client, mdl).
        (temperature (model_settings cfg), max_tokens (model_settings cfg)))
     (create_gemini_config [''GEMINI_API_KEY'' \<mapsto> ''secret''] (3 / 2) 1000) =
     Inr (3 / 2, 1000) \<and>
   map_sum id
     (\<lambda>(cfg, client, mdl).
        (temperature (model_settings cfg), max_tokens (model_settings cfg)))
     (create_gemini_config [''GEMINI_API_KEY'' \<mapsto> ''secret''] (7 / 10) (- 5)) =
     Inr (7 / 10, - 5)"
  by (simp add: create_gemini_config_def Let_def)

text \<open>
  C2. Whatever the temperature and the token limit are, \<open>create_gemini_config\<close> fails
  with the missing-credential error (the \<open>ValueError\<close> of line 23) when
  \<open>GEMINI_API_KEY\<close> is absent from the environment or is the empty string.
\<close>

theorem create_gemini_config_missing_credential:
  assumes "env ''GEMINI_API_KEY'' = None \<or> env ''GEMINI_API_KEY'' = Some ''''"
  shows "create_gemini_config env temp max_tok =
           Inl (ValueError ''GEMINI_API_KEY not found in environment variables'')"
  using assms by (auto simp: create_gemini_config_def)

theorem create_gemini_config_missing_credential_witness:
  "(Map.empty :: environ) ''GEMINI_API_KEY'' = None \<and>
   [''GEMINI_API_KEY'' \<mapsto> ''''] ''GEMINI_API_KEY'' = Some '''' \<and>
   create_gemini_config Map.empty (7 / 10) 1000 =
     Inl (ValueError ''GEMINI_API_KEY not found in environment variables'') \<and>
   create_gemini_config [''GEMINI_API_KEY'' \<mapsto> ''''] (3 / 2) (- 5) =
     Inl (ValueError ''GEMINI_API_KEY not found in environment variables'')"
  using create_gemini_config_missing_credential [of Map.empty "7 / 10" 1000]
    create_gemini_config_missing_credential [of "[''GEMINI_API_KEY'' \<mapsto> '''']" "3 / 2" "- 5"]
  by simp

section \<open>Instruction templates\<close>

lemma title_keys:
  "title ''email'' = ''Email''"
  "title ''code'' = ''Code''"
  "title ''creative'' = ''Creative''"
  "title ''tutor'' = ''Tutor''"
  "title ''analyst'' = ''Analyst''"
  by code_simp+

lemma instruction_templates_keys:
  "map fst (instruction_templates additional_context) =
     [''email'', ''code'', ''creative'', ''tutor'', ''analyst'']"
  by (simp add: instruction_templates_def)

text \<open>
  C3. The mapping has exactly the five keys \<open>email\<close>, \<open>code\<close>, \<open>creative\<close>, \<open>tutor\<close> and
  \<open>analyst\<close>. For each of them and every context, \<open>create_agent_for_task\<close> returns an
  agent whose instructions are the fixed template of that key, written out below,
  followed by the context, unchanged. For \<open>creative\<close> and \<open>focus on sustainability\<close> the
  instructions are the creative-writing preamble followed by that text.
\<close>

theorem create_agent_for_task_known_key:
  "map fst (instruction_templates additional_context) =
     [''email'', ''code'', ''creative'', ''tutor'', ''analyst''] \<and>
   create_agent_for_task self ''email'' additional_context =
     Inr \<lparr>name = base_name self @ '' - Email'',
          instructions =
            ''You are a professional email assistant.'' @ nl @ indent @
            ''Write clear, polite, and business-appropriate emails.'' @ nl @ indent @
            ''Keep responses concise and actionable.'' @ nl @ indent @
            additional_context,
          model = ''gemini-2.0-flash''\<rparr> \<and>
   create_agent_for_task self ''code'' additional_context =
     Inr \<lparr>name = base_name self @ '' - Code'',
          instructions =
            ''You are a senior software engineer.'' @ nl @ indent @
            ''Provide clean, well-commented code with explanations.'' @ nl @ indent @
            ''Focus on best practices and readability.'' @ nl @ indent @
            additional_context,
          model = ''gemini-2.0-flash''\<rparr> \<and>
   create_agent_for_task self ''creative'' additional_context =
     Inr \<lparr>name = base_name self @ '' - Creative'',
          instructions =
            ''You are a creative writing assistant.'' @ nl @ indent @
            ''Be imaginative, engaging, and descriptive.'' @ nl @ indent @
            ''Use vivid language and compelling narratives.'' @ nl @ indent @
            additional_context,
          model = ''gemini-2.0-flash''\<rparr> \<and>
   create_agent_for_task self ''tutor'' additional_context =
     Inr \<lparr>name = base_name self @ '' - Tutor'',
          instructions =
            ''You are a patient and encouraging tutor.'' @ nl @ indent @
            ''Explain concepts step-by-step with examples.'' @ nl @ indent @
            ''Ask clarifying questions to ensure understanding.'' @ nl @ indent @
            additional_context,
          model = ''gemini-2.0-flash''\<rparr> \<and>
   create_agent_for_task self ''analyst'' additional_context =
     Inr \<lparr>name = base_name self @ '' - Analyst'',
          instructions =
            ''You are a data analyst.'' @ nl @ indent @
            ''Provide structured, logical analysis.'' @ nl @ indent @
            ''Use facts and evidence to support conclusions.'' @ nl @ indent @
            additional_context,
          model = ''gemini-2.0-flash''\<rparr> \<and>
   create_agent_for_task self ''creative'' ''focus on sustainability'' =
     Inr \<lparr>name = base_name self @ '' - Creative'',
          instructions =
            ''You are a creative writing assistant.'' @ nl @ indent @
            ''Be imaginative, engaging, and descriptive.'' @ nl @ indent @
            ''Use vivid language and compelling narratives.'' @ nl @ indent @
            ''focus on sustainability'',
          model = ''gemini-2.0-flash''\<rparr>"
  by (simp add: create_agent_for_task_def instruction_templates_def title_keys)

text \<open>
  C4. For every \<open>task_type\<close> outside the five keys, and any context,
  \<open>create_agent_for_task\<close> raises the unknown-task-type error (the \<open>ValueError\<close> of
  line 58, whose message ends with the offending key).
\<close>

theorem create_agent_for_task_unknown_key:
  assumes "task_type \<notin> {''email'', ''code'', ''creative'', ''tutor'', ''analyst''}"
  shows "create_agent_for_task self task_type additional_context =
           Inl (ValueError (''Unknown task type: '' @ task_type))"
  using assms by (simp add: create_agent_for_task_def instruction_templates_def)

theorem create_agent_for_task_unknown_key_witness:
  "''unknown_type'' \<notin> {''email'', ''code'', ''creative'', ''tutor'', ''analyst''} \<and>
   create_agent_for_task dynamic_system ''unknown_type'' '''' =
     Inl (ValueError ''Unknown task type: unknown_type'')"
  using create_agent_for_task_unknown_key [of "''unknown_type''" dynamic_system "''''"]
  by simp

section \<open>The dispatcher has no side effect\<close>

text \<open>The state-passing method computes the value of \<open>create_agent_for_task\<close>.\<close>

lemma create_agent_for_task_st_value:
  "fst (create_agent_for_task_st task_type additional_context s) =
     create_agent_for_task (dispatcher s) task_type additional_context"
  by (simp add: create_agent_for_task_st_def create_agent_for_task_def split: option.splits)

text \<open>
  C7. A call of \<open>create_agent_for_task\<close> leaves the state as it found it: the attributes
  of the dispatcher, the environment and the console after the call are those before it,
  whether the call returns or raises. And two runs with the same \<open>task_type\<close> and context,
  started in any two states (other dispatcher, other environment, other console), fail
  alike or produce the same instructions and the same model name.
\<close>

theorem create_agent_for_task_pure:
  "snd (create_agent_for_task_st task_type additional_context s1) = s1 \<and>
   map_sum id (\<lambda>a. (instructions a, model a))
     (fst (create_agent_for_task_st task_type additional_context s1)) =
   map_sum id (\<lambda>a. (instructions a, model a))
     (fst (create_agent_for_task_st task_type additional_context s2))"
  by (simp add: create_agent_for_task_st_def split: option.splits)

section \<open>Errors in the request path\<close>

text \<open>
  An exception that is no instance of \<open>Exception\<close>, such as the cancellation of the task
  while it awaits the remote call, leaves \<open>handle_request\<close> and nothing is printed.
\<close>

lemma handle_request_cancelled:
  "handle_request (\<lambda>ag inp cfg. Inl CancelledError) dynamic_system ''email''
     ''Write a follow-up email'' '''' [] = (Inl CancelledError, [])"
  by (simp add: handle_request_def create_agent_for_task_def instruction_templates_def
      except_Exception_def)

text \<open>
  C5 asks that a failure of the remote call reach the caller unmodified and that no
  unrelated message take its place. The other callers of \<open>Runner.run\<close> in the repository
  (temperature_demo.py, day1_basic_agent.py) let such a failure propagate. Here the
  clause of line 74, whose message is about the task type, takes it as well: when the
  remote call of an \<open>email\<close> request raises \<open>503 Service Unavailable\<close>, the method returns
  \<open>None\<close> as if it had succeeded and prints the message behind \<open>you type wrong
  task_type\<close>.
\<close>

theorem handle_request_swallows_remote_failure:
  "handle_request (\<lambda>ag inp cfg. Inl (RemoteCallError ''503 Service Unavailable''))
     dynamic_system ''email'' ''Write a follow-up email'' '''' [] =
   (Inr None, [''you type wrong task_type 503 Service Unavailable''])"
  by (simp add: handle_request_def create_agent_for_task_def instruction_templates_def
      except_Exception_def)

section \<open>Rock, paper, scissors: the guard of the display\<close>

lemma choice_guard_cases: "choice_guard c = (c = 1 \<or> c = 2 \<or> c = 3)"
  unfolding choice_guard_def by arith

lemma rock_distinct: "rock \<noteq> paper" "rock \<noteq> scissors"
  by (simp_all add: rock_def paper_def scissors_def nl_def apostrophe_def)

lemma getitem_game_list:
  "getitem game_list 1 = Inr paper"
  "getitem game_list 2 = Inr scissors"
  "getitem game_list 3 = Inl (IndexError ''list index out of range'')"
  by (simp_all add: getitem_def game_list_def)

lemma show_choice_values:
  "show_choice 1 = Inr [paper]"
  "show_choice 2 = Inr [scissors]"
  "show_choice 3 = Inl (IndexError ''list index out of range'')"
  "show_choice 0 = Inr []"
  by (simp_all add: show_choice_def choice_guard_cases getitem_game_list)

text \<open>
  C9. The guard \<open>0 < c \<le> 3\<close> does not establish that \<open>game_list[c]\<close> is in bounds. It
  admits 1 and 2, where the access succeeds, and 3, where the access raises
  \<open>IndexError\<close> and ends the program; the guard and a successful access hold together
  exactly for 1 and 2. It rejects 0, so nothing is displayed for rock, and for no choice at
  all is the rock picture what the display shows.
\<close>

theorem choice_guard_admits_out_of_bounds:
  "choice_guard 1 \<and> show_choice 1 = Inr [paper] \<and>
   choice_guard 2 \<and> show_choice 2 = Inr [scissors] \<and>
   choice_guard 3 \<and> show_choice 3 = Inl (IndexError ''list index out of range'') \<and>
   rock_paper_scissor 3 ai = Inl (IndexError ''list index out of range'') \<and>
   \<not> choice_guard 0 \<and> show_choice 0 = Inr [] \<and>
   show_choice c \<noteq> Inr [rock] \<and>
   (choice_guard c \<and> (\<exists>picture. getitem game_list c = Inr picture)) = (c = 1 \<or> c = 2)"
proof -
  have r: "show_choice c \<noteq> Inr [rock]"
  proof (cases "choice_guard c")
    case True
    then have "c = 1 \<or> c = 2 \<or> c = 3"
      by (simp add: choice_guard_cases)
    then show ?thesis
      using show_choice_values rock_distinct by auto
  next
    case False
    then show ?thesis
      by (simp add: show_choice_def)
  qed
  have e: "(choice_guard c \<and> (\<exists>picture. getitem game_list c = Inr picture)) =
           (c = 1 \<or> c = 2)"
    using getitem_game_list by (auto simp: choice_guard_cases)
  show ?thesis
    using show_choice_values r e by (simp add: choice_guard_cases rock_paper_scissor_def)
qed

section \<open>The password generator\<close>
















section \<open>The calculator: division\<close>























end
